theory Spec2Isabelle
  imports Main
begin

section \<open>The camera controller of HAL (hal4000/camera/camera.py)\<close>

text \<open>
  The class \<open>Camera\<close> handles the messages of one camera. Its method
  \<open>processMessage\<close> is an if/elif chain over the type of the message; the only
  attribute it writes is \<open>film_length\<close>. The camera driver
  (\<open>self.camera_control\<close>), the message classes, the parameter class and
  \<open>halModule.runWorkerTask\<close> live in other modules: the driver is taken as a
  parameter, the others are modelled from the specification where marked.
\<close>

subsection \<open>Values carried by messages\<close>

type_synonym addr = nat

text \<open>
  Modelled from the spec: the class of \<open>storm_control.sc_library.parameters\<close> is
  missing. A ParameterSet is a named, hierarchical configuration; a value of type
  \<open>ptree\<close> is the content of one such object, with all its sub-trees.
\<close>

datatype ptree = PInt int | PStr string | PSection "(string \<times> ptree) list"

text \<open>
  ParameterSet objects are mutable and shared, so they live in a store: \<open>cells\<close>
  gives the content of the object at an address, and the addresses below
  \<open>next_addr\<close> are the ones in use.
\<close>

record store =
  cells :: "addr \<Rightarrow> ptree"
  next_addr :: addr

text \<open>A functionality exposes \<open>getTimeBase()\<close>; \<open>camera_name\<close> is its identity.\<close>

record functionality =
  camera_name :: string
  getTimeBase :: string

text \<open>The film settings expose \<open>isFixedLength()\<close> and \<open>getFilmLength()\<close>.\<close>

record film_settings =
  isFixedLength :: bool
  getFilmLength :: int

text \<open>
  What a key of a message's data dictionary can hold: a string, a functionality, a
  reference to a ParameterSet object, or film settings.
\<close>

datatype data_value =
  VStr string
| VFunctionality functionality
| VParameters addr
| VFilmSettings film_settings

text \<open>\<open>HalMessageResponse(source, data)\<close>; the data is a dictionary.\<close>

record response =
  resp_source :: string
  resp_data :: "(string \<times> data_value) list"

text \<open>\<open>HalMessage(source, m_type, data)\<close> with the responses added to it so far.\<close>

record message =
  m_type :: string
  source :: string
  data :: "(string \<times> data_value) list"
  responses :: "response list"

definition isType :: "message \<Rightarrow> string \<Rightarrow> bool" where
  "isType msg t = (m_type msg = t)"

definition getData :: "message \<Rightarrow> string \<Rightarrow> data_value option" where
  "getData msg k = map_of (data msg) k"

definition addResponse :: "message \<Rightarrow> response \<Rightarrow> message" where
  "addResponse msg r = msg\<lparr>responses := responses msg @ [r]\<rparr>"

subsection \<open>Exceptions\<close>

text \<open>
  \<open>message.getData()[k]\<close> raises KeyError for a missing key, a method called on a
  value of the wrong kind raises AttributeError, looking up a missing section of a
  ParameterSet fails, and a driver method that acts on the device may fail with a
  DeviceError. \<open>processMessage\<close> catches nothing, so whatever is raised ends the
  call, with the effects made so far in place.
\<close>

datatype error =
  KeyError string
| AttributeError
| ParametersException string
| DeviceError string

datatype outcome = Done | Raised error

subsection \<open>The driver and the state of the controller\<close>

text \<open>The calls made on \<open>self.camera_control\<close>, and the worker tasks started.\<close>

datatype call =
  GetParameters
| GetCameraFunctionality
| NewParameters ptree
| SetFilmLength "int option"
| StartCamera
| StopCamera
| StopFilm
| ToggleShutter

datatype task =
  SetFilmLengthTask
| UpdateParametersTask
| ToggleShutterTask
| StartCameraTask
| StopCameraTask

text \<open>
  The driver class is loaded by name in \<open>__init__\<close> and is not part of this file,
  so its methods are parameters: \<open>'d\<close> is the driver's own state, and a method that
  acts on the device may write ParameterSet objects, and it returns or raises: its
  result holds the outcome together with the driver state and the store it leaves, so a
  method that raises may have acted in part. The two getters only read the driver's
  state; \<open>getParameters\<close> returns a reference to the driver's parameter object.
\<close>

record 'd driver =
  drv_getParameters :: "'d \<Rightarrow> addr"
  drv_getCameraFunctionality :: "'d \<Rightarrow> functionality"
  drv_newParameters :: "ptree \<Rightarrow> 'd \<times> store \<Rightarrow> outcome \<times> 'd \<times> store"
  drv_setFilmLength :: "int option \<Rightarrow> 'd \<times> store \<Rightarrow> outcome \<times> 'd \<times> store"
  drv_startCamera :: "'d \<times> store \<Rightarrow> outcome \<times> 'd \<times> store"
  drv_stopCamera :: "'d \<times> store \<Rightarrow> outcome \<times> 'd \<times> store"
  drv_stopFilm :: "'d \<times> store \<Rightarrow> outcome \<times> 'd \<times> store"
  drv_toggleShutter :: "'d \<times> store \<Rightarrow> outcome \<times> 'd \<times> store"

text \<open>
  The attributes of a \<open>Camera\<close> (\<open>self.module_name\<close>, \<open>self.film_length\<close>,
  \<open>self.camera_control\<close>) together with what its methods act on: the object store, the
  trace of driver calls, the worker tasks started and the messages emitted through
  \<open>newMessage\<close>.
\<close>

record 'd camera =
  self_module_name :: string
  film_length :: "int option"
  camera_control :: 'd
  objects :: store
  calls :: "call list"
  tasks :: "task list"
  emitted :: "message list"

text \<open>\<open>__init__\<close>: \<open>film_length\<close> starts as None.\<close>

definition init :: "string \<Rightarrow> 'd \<Rightarrow> store \<Rightarrow> 'd camera" where
  "init name d st =
     \<lparr>self_module_name = name, film_length = None, camera_control = d, objects = st,
      calls = [], tasks = [], emitted = []\<rparr>"

text \<open>
  A call of a driver method that acts on the device: the call is recorded in the trace,
  and its outcome is handed on with the state the driver left.
\<close>

definition device ::
  "call \<Rightarrow> ('d \<times> store \<Rightarrow> outcome \<times> 'd \<times> store) \<Rightarrow> 'd camera \<Rightarrow> outcome \<times> 'd camera" where
  "device c f s =
     (case f (camera_control s, objects s) of
        (out, d, st) \<Rightarrow>
          (out, s\<lparr>camera_control := d, objects := st, calls := calls s @ [c]\<rparr>))"

text \<open>\<open>self.camera_control.getParameters()\<close>: the reference, and the call recorded.\<close>

definition getParameters :: "'d driver \<Rightarrow> 'd camera \<Rightarrow> addr \<times> 'd camera" where
  "getParameters drv s =
     (drv_getParameters drv (camera_control s), s\<lparr>calls := calls s @ [GetParameters]\<rparr>)"

definition getCameraFunctionality :: "'d driver \<Rightarrow> 'd camera \<Rightarrow> functionality \<times> 'd camera" where
  "getCameraFunctionality drv s =
     (drv_getCameraFunctionality drv (camera_control s),
      s\<lparr>calls := calls s @ [GetCameraFunctionality]\<rparr>)"

text \<open>
  Modelled from the spec: \<open>ParameterSet.copy()\<close> is missing; the spec calls it a
  deep, independent clone. The clone is a new object holding the content of the
  original.
\<close>

definition params_copy :: "addr \<Rightarrow> store \<Rightarrow> addr \<times> store" where
  "params_copy a st =
     (next_addr st,
      st\<lparr>cells := (cells st)(next_addr st := cells st a), next_addr := Suc (next_addr st)\<rparr>)"

text \<open>
  Modelled from the spec: \<open>ParameterSet.get(name)\<close> is missing; the spec calls it a
  sub-tree lookup that fails when the name is not in the tree.
\<close>

definition params_get :: "ptree \<Rightarrow> string \<Rightarrow> ptree option" where
  "params_get p name = (case p of PSection kvs \<Rightarrow> map_of kvs name | _ \<Rightarrow> None)"

text \<open>
  Modelled from the spec: \<open>halModule.runWorkerTask(module, message, task)\<close> is
  missing; the spec's scoped task runner returns only after the work has completed.
  The task is recorded, then run; what the work raises is the outcome of the message.
\<close>

definition runWorkerTask ::
  "task \<Rightarrow> (message \<Rightarrow> 'd camera \<Rightarrow> outcome \<times> message \<times> 'd camera) \<Rightarrow>
   message \<Rightarrow> 'd camera \<Rightarrow> outcome \<times> message \<times> 'd camera" where
  "runWorkerTask t work msg s = work msg (s\<lparr>tasks := tasks s @ [t]\<rparr>)"

text \<open>The work of a task that calls a method of the camera and leaves the message alone.\<close>

definition work ::
  "('d camera \<Rightarrow> outcome \<times> 'd camera) \<Rightarrow> message \<Rightarrow> 'd camera \<Rightarrow>
   outcome \<times> message \<times> 'd camera" where
  "work f msg s = (case f s of (out, s') \<Rightarrow> (out, msg, s'))"

subsection \<open>The methods of Camera\<close>

definition setFilmLength ::
  "'d driver \<Rightarrow> int option \<Rightarrow> 'd camera \<Rightarrow> outcome \<times> 'd camera" where
  "setFilmLength drv n s = device (SetFilmLength n) (drv_setFilmLength drv n) s"

definition startCamera :: "'d driver \<Rightarrow> 'd camera \<Rightarrow> outcome \<times> 'd camera" where
  "startCamera drv s = device StartCamera (drv_startCamera drv) s"

definition stopCamera :: "'d driver \<Rightarrow> 'd camera \<Rightarrow> outcome \<times> 'd camera" where
  "stopCamera drv s = device StopCamera (drv_stopCamera drv) s"

definition toggleShutter :: "'d driver \<Rightarrow> 'd camera \<Rightarrow> outcome \<times> 'd camera" where
  "toggleShutter drv s = device ToggleShutter (drv_toggleShutter drv) s"

text \<open>
  \<open>updateParameters\<close>: the response with the copy of the old parameters is added
  before the message's parameters are looked up and applied, so it stays when the
  lookup or \<open>newParameters\<close> raises; the response with the new parameters is added
  only after \<open>newParameters\<close> has returned.
\<close>

definition updateParameters ::
  "'d driver \<Rightarrow> message \<Rightarrow> 'd camera \<Rightarrow> outcome \<times> message \<times> 'd camera" where
  "updateParameters drv msg s =
     (case getParameters drv s of (live, s1) \<Rightarrow>
     (case params_copy live (objects s1) of (snap, st2) \<Rightarrow>
     (let s2 = s1\<lparr>objects := st2\<rparr>;
          msg1 = addResponse msg
                   \<lparr>resp_source = self_module_name s2,
                    resp_data = [(''old parameters'', VParameters snap)]\<rparr>
      in (case getData msg1 ''parameters'' of
            None \<Rightarrow> (Raised (KeyError ''parameters''), msg1, s2)
          | Some (VParameters P) \<Rightarrow>
              (case params_get (cells (objects s2) P) (self_module_name s2) of
                 None \<Rightarrow> (Raised (ParametersException (self_module_name s2)), msg1, s2)
               | Some p \<Rightarrow>
                   (case device (NewParameters p) (drv_newParameters drv p) s2 of
                      (out, s3) \<Rightarrow>
                        (case out of
                           Raised e \<Rightarrow> (Raised e, msg1, s3)
                         | Done \<Rightarrow>
                             (case getParameters drv s3 of (live', s4) \<Rightarrow>
                                (Done,
                                 addResponse msg1
                                   \<lparr>resp_source = self_module_name s4,
                                    resp_data = [(''new parameters'', VParameters live')]\<rparr>,
                                 s4)))))
          | Some _ \<Rightarrow> (Raised AttributeError, msg1, s2)))))"

text \<open>
  \<open>processMessage\<close>, branch by branch. The film length passed to
  \<open>setFilmLength\<close> is read when the task runs, as the lambda of the source does.
\<close>

definition processMessage ::
  "'d driver \<Rightarrow> message \<Rightarrow> 'd camera \<Rightarrow> outcome \<times> message \<times> 'd camera" where
  "processMessage drv msg s =
    (if isType msg ''configure1'' then
       (case getParameters drv s of (p, s1) \<Rightarrow>
          (Done, msg,
           s1\<lparr>emitted := emitted s1 @
                [\<lparr>m_type = ''initial parameters'', source = self_module_name s1,
                  data = [(''parameters'', VParameters p)], responses = []\<rparr>]\<rparr>))
     else if isType msg ''film timing'' then
       (case getData msg ''functionality'' of
          None \<Rightarrow> (Raised (KeyError ''functionality''), msg, s)
        | Some (VFunctionality f) \<Rightarrow>
            if getTimeBase f = self_module_name s then
              (if film_length s \<noteq> None then
                 runWorkerTask SetFilmLengthTask
                   (work (\<lambda>s'. setFilmLength drv (film_length s') s')) msg s
               else (Done, msg, s))
            else (Done, msg, s)
        | Some _ \<Rightarrow> (Raised AttributeError, msg, s))
     else if isType msg ''get camera functionality'' then
       (case getData msg ''camera'' of
          None \<Rightarrow> (Raised (KeyError ''camera''), msg, s)
        | Some v \<Rightarrow>
            if v = VStr (self_module_name s) then
              (case getCameraFunctionality drv s of (f, s1) \<Rightarrow>
                 (Done,
                  addResponse msg
                    \<lparr>resp_source = self_module_name s1,
                     resp_data = [(''functionality'', VFunctionality f)]\<rparr>,
                  s1))
            else (Done, msg, s))
     else if isType msg ''new parameters'' then
       runWorkerTask UpdateParametersTask (updateParameters drv) msg s
     else if isType msg ''shutter clicked'' then
       (case getData msg ''camera'' of
          None \<Rightarrow> (Raised (KeyError ''camera''), msg, s)
        | Some v \<Rightarrow>
            if v = VStr (self_module_name s) then
              runWorkerTask ToggleShutterTask (work (toggleShutter drv)) msg s
            else (Done, msg, s))
     else if isType msg ''start camera'' then
       (case getData msg ''camera'' of
          None \<Rightarrow> (Raised (KeyError ''camera''), msg, s)
        | Some v \<Rightarrow>
            if v = VStr (self_module_name s) then
              runWorkerTask StartCameraTask (work (startCamera drv)) msg s
            else (Done, msg, s))
     else if isType msg ''start film'' then
       (case getData msg ''film settings'' of
          None \<Rightarrow> (Raised (KeyError ''film settings''), msg, s)
        | Some (VFilmSettings film_settings) \<Rightarrow>
            if isFixedLength film_settings then
              (Done, msg, s\<lparr>film_length := Some (getFilmLength film_settings)\<rparr>)
            else (Done, msg, s)
        | Some _ \<Rightarrow> (Raised AttributeError, msg, s))
     else if isType msg ''stop camera'' then
       (case getData msg ''camera'' of
          None \<Rightarrow> (Raised (KeyError ''camera''), msg, s)
        | Some v \<Rightarrow>
            if v = VStr (self_module_name s) then
              runWorkerTask StopCameraTask (work (stopCamera drv)) msg s
            else (Done, msg, s))
     else if isType msg ''stop film'' then
       (let s1 = s\<lparr>film_length := None\<rparr>
        in (case device StopFilm (drv_stopFilm drv) s1 of
              (out, s2) \<Rightarrow>
                (case out of
                   Raised e \<Rightarrow> (Raised e, msg, s2)
                 | Done \<Rightarrow>
                     (case getParameters drv s2 of (p, s3) \<Rightarrow>
                        (Done,
                         addResponse msg
                           \<lparr>resp_source = self_module_name s3,
                            resp_data = [(''parameters'', VParameters p)]\<rparr>,
                         s3)))))
     else (Done, msg, s))"

text \<open>
  The state of the controller after the bus has delivered a sequence of messages, one
  call of \<open>processMessage\<close> each. A call that raises leaves the state it had
  reached, and the run goes on from there; a delivery cut short by an exception is the
  run of the messages up to the one that raised, that one included.
\<close>

primrec processMessages :: "'d driver \<Rightarrow> message list \<Rightarrow> 'd camera \<Rightarrow> 'd camera" where
  "processMessages drv [] s = s"
| "processMessages drv (msg # msgs) s =
     processMessages drv msgs (snd (snd (processMessage drv msg s)))"

subsection \<open>Notions used to state the properties\<close>

text \<open>The nine message types that \<open>processMessage\<close> tests for.\<close>

definition handled_types :: "string list" where
  "handled_types =
     [''configure1'', ''film timing'', ''get camera functionality'', ''new parameters'',
      ''shutter clicked'', ''start camera'', ''start film'', ''stop camera'', ''stop film'']"

text \<open>
  The length a message declares: that of a "start film" whose film settings are of
  fixed length, and none for every other message.
\<close>

definition declared_length :: "message \<Rightarrow> int option" where
  "declared_length msg =
     (if isType msg ''start film'' then
        (case getData msg ''film settings'' of
           Some (VFilmSettings fs) \<Rightarrow>
             if isFixedLength fs then Some (getFilmLength fs) else None
         | _ \<Rightarrow> None)
      else None)"

text \<open>
  A mutation of the ParameterSet object at an address: its content is replaced. Whatever
  is done to one of its parameters or sub-trees is such a replacement.
\<close>

definition mutate :: "addr \<Rightarrow> ptree \<Rightarrow> store \<Rightarrow> store" where
  "mutate a v st = st\<lparr>cells := (cells st)(a := v)\<rparr>"

text \<open>
  A step of the driver from store \<open>st\<close> to \<open>st'\<close> that wrote no object of
  \<open>st\<close> but the one at \<open>own\<close>.
\<close>

definition writes_only :: "addr \<Rightarrow> store \<Rightarrow> store \<Rightarrow> bool" where
  "writes_only own st st' = (\<forall>a<next_addr st. a \<noteq> own \<longrightarrow> cells st' a = cells st a)"

subsection \<open>A driver, a store and messages to run the controller on\<close>

text \<open>
  A driver whose state is the address of its parameter object; \<open>newParameters\<close>
  overwrites that object in place, the other methods leave everything as it is, and
  every call returns.
\<close>

definition example_driver :: "addr driver" where
  "example_driver =
     \<lparr>drv_getParameters = (\<lambda>d. d),
      drv_getCameraFunctionality =
        (\<lambda>d. \<lparr>camera_name = ''camera1'', getTimeBase = ''camera1''\<rparr>),
      drv_newParameters = (\<lambda>p (d, st). (Done, d, st\<lparr>cells := (cells st)(d := p)\<rparr>)),
      drv_setFilmLength = (\<lambda>n x. (Done, x)),
      drv_startCamera = (\<lambda>x. (Done, x)),
      drv_stopCamera = (\<lambda>x. (Done, x)),
      drv_stopFilm = (\<lambda>x. (Done, x)),
      drv_toggleShutter = (\<lambda>x. (Done, x))\<rparr>"


text \<open>
  Object 0 holds the driver's parameters, object 1 a full parameter set with a section
  for \<open>camera1\<close>.
\<close>

definition example_store :: store where
  "example_store =
     \<lparr>cells = (\<lambda>a. if a = 0 then PSection [(''exposure'', PInt 10)]
                   else if a = 1 then
                     PSection [(''camera1'', PSection [(''exposure'', PInt 20)])]
                   else PSection []),
      next_addr = 2\<rparr>"

definition example_camera :: "addr camera" where
  "example_camera = init ''camera1'' 0 example_store"

definition example_message :: "string \<Rightarrow> (string \<times> data_value) list \<Rightarrow> message" where
  "example_message t d = \<lparr>m_type = t, source = ''sender'', data = d, responses = []\<rparr>"

definition start_film :: "bool \<Rightarrow> int \<Rightarrow> message" where
  "start_film fixed n =
     example_message ''start film''
       [(''film settings'', VFilmSettings \<lparr>isFixedLength = fixed, getFilmLength = n\<rparr>)]"

definition film_timing :: "string \<Rightarrow> message" where
  "film_timing tb =
     example_message ''film timing''
       [(''functionality'', VFunctionality \<lparr>camera_name = ''timing'', getTimeBase = tb\<rparr>)]"

section \<open>One equation for each branch of processMessage\<close>

lemma processMessage_configure1:
  "m_type msg = ''configure1'' \<Longrightarrow>
   processMessage drv msg s =
     (Done, msg,
      s\<lparr>calls := calls s @ [GetParameters],
        emitted := emitted s @
          [\<lparr>m_type = ''initial parameters'', source = self_module_name s,
            data = [(''parameters'', VParameters (drv_getParameters drv (camera_control s)))],
            responses = []\<rparr>]\<rparr>)"
  by (simp add: processMessage_def isType_def getParameters_def)

lemma processMessage_film_timing:
  "m_type msg = ''film timing'' \<Longrightarrow>
   processMessage drv msg s =
     (case getData msg ''functionality'' of
        None \<Rightarrow> (Raised (KeyError ''functionality''), msg, s)
      | Some (VFunctionality f) \<Rightarrow>
          if getTimeBase f = self_module_name s \<and> film_length s \<noteq> None
          then (case setFilmLength drv (film_length s)
                       (s\<lparr>tasks := tasks s @ [SetFilmLengthTask]\<rparr>) of
                  (out, s') \<Rightarrow> (out, msg, s'))
          else (Done, msg, s)
      | Some _ \<Rightarrow> (Raised AttributeError, msg, s))"
  by (simp add: processMessage_def isType_def runWorkerTask_def work_def
           split: option.split data_value.split)

lemma processMessage_get_camera_functionality:
  "m_type msg = ''get camera functionality'' \<Longrightarrow>
   processMessage drv msg s =
     (case getData msg ''camera'' of
        None \<Rightarrow> (Raised (KeyError ''camera''), msg, s)
      | Some v \<Rightarrow>
          if v = VStr (self_module_name s)
          then (Done,
                addResponse msg
                  \<lparr>resp_source = self_module_name s,
                   resp_data = [(''functionality'',
                     VFunctionality (drv_getCameraFunctionality drv (camera_control s)))]\<rparr>,
                s\<lparr>calls := calls s @ [GetCameraFunctionality]\<rparr>)
          else (Done, msg, s))"
  by (simp add: processMessage_def isType_def getCameraFunctionality_def split: option.split)

lemma processMessage_new_parameters:
  "m_type msg = ''new parameters'' \<Longrightarrow>
   processMessage drv msg s =
     updateParameters drv msg (s\<lparr>tasks := tasks s @ [UpdateParametersTask]\<rparr>)"
  by (simp add: processMessage_def isType_def runWorkerTask_def)

lemma processMessage_shutter_clicked:
  "m_type msg = ''shutter clicked'' \<Longrightarrow>
   processMessage drv msg s =
     (case getData msg ''camera'' of
        None \<Rightarrow> (Raised (KeyError ''camera''), msg, s)
      | Some v \<Rightarrow>
          if v = VStr (self_module_name s)
          then (case toggleShutter drv (s\<lparr>tasks := tasks s @ [ToggleShutterTask]\<rparr>) of
                  (out, s') \<Rightarrow> (out, msg, s'))
          else (Done, msg, s))"
  by (simp add: processMessage_def isType_def runWorkerTask_def work_def split: option.split)

lemma processMessage_start_camera:
  "m_type msg = ''start camera'' \<Longrightarrow>
   processMessage drv msg s =
     (case getData msg ''camera'' of
        None \<Rightarrow> (Raised (KeyError ''camera''), msg, s)
      | Some v \<Rightarrow>
          if v = VStr (self_module_name s)
          then (case startCamera drv (s\<lparr>tasks := tasks s @ [StartCameraTask]\<rparr>) of
                  (out, s') \<Rightarrow> (out, msg, s'))
          else (Done, msg, s))"
  by (simp add: processMessage_def isType_def runWorkerTask_def work_def split: option.split)

lemma processMessage_start_film:
  "m_type msg = ''start film'' \<Longrightarrow>
   processMessage drv msg s =
     (case getData msg ''film settings'' of
        None \<Rightarrow> (Raised (KeyError ''film settings''), msg, s)
      | Some (VFilmSettings fs) \<Rightarrow>
          if isFixedLength fs then (Done, msg, s\<lparr>film_length := Some (getFilmLength fs)\<rparr>)
          else (Done, msg, s)
      | Some _ \<Rightarrow> (Raised AttributeError, msg, s))"
  by (simp add: processMessage_def isType_def split: option.split data_value.split)

lemma processMessage_stop_camera:
  "m_type msg = ''stop camera'' \<Longrightarrow>
   processMessage drv msg s =
     (case getData msg ''camera'' of
        None \<Rightarrow> (Raised (KeyError ''camera''), msg, s)
      | Some v \<Rightarrow>
          if v = VStr (self_module_name s)
          then (case stopCamera drv (s\<lparr>tasks := tasks s @ [StopCameraTask]\<rparr>) of
                  (out, s') \<Rightarrow> (out, msg, s'))
          else (Done, msg, s))"
  by (simp add: processMessage_def isType_def runWorkerTask_def work_def split: option.split)

lemma processMessage_stop_film:
  "m_type msg = ''stop film'' \<Longrightarrow>
   processMessage drv msg s =
     (case drv_stopFilm drv (camera_control s, objects s) of
        (out, d, st) \<Rightarrow>
          (case out of
             Done \<Rightarrow>
               (Done,
                addResponse msg
                  \<lparr>resp_source = self_module_name s,
                   resp_data = [(''parameters'', VParameters (drv_getParameters drv d))]\<rparr>,
                s\<lparr>film_length := None, camera_control := d, objects := st,
                  calls := calls s @ [StopFilm, GetParameters]\<rparr>)
           | Raised e \<Rightarrow>
               (Raised e, msg,
                s\<lparr>film_length := None, camera_control := d, objects := st,
                  calls := calls s @ [StopFilm]\<rparr>)))"
  by (simp add: processMessage_def isType_def getParameters_def device_def Let_def
           split: prod.split outcome.split)

lemma processMessage_unhandled:
  "m_type msg \<notin> set handled_types \<Longrightarrow> processMessage drv msg s = (Done, msg, s)"
  by (simp add: processMessage_def isType_def handled_types_def)

lemmas example_defs =
  example_driver_def example_store_def example_camera_def example_message_def
  start_film_def film_timing_def init_def

section \<open>Messages of a type the controller does not handle\<close>

text \<open>
  C8: a message whose type is none of the nine handled types changes nothing: the
  outcome is normal, the message comes back with the responses it had, and the state of
  the controller is the same, so its film length is unchanged, no driver method was
  called, no task was started and no message was emitted.
\<close>

theorem unhandled_type_is_noop:
  "m_type msg \<notin> set handled_types \<Longrightarrow> processMessage drv msg s = (Done, msg, s)"
  by (rule processMessage_unhandled)

theorem unhandled_type_is_noop_witness:
  "m_type (example_message ''tcp message'' []) \<notin> set handled_types \<and>
   processMessage example_driver (example_message ''tcp message'' []) example_camera
     = (Done, example_message ''tcp message'' [], example_camera)"
  using unhandled_type_is_noop [of "example_message ''tcp message'' []"
      example_driver example_camera]
  by (simp add: example_message_def handled_types_def)

section \<open>Which messages write film\_length\<close>

lemma film_length_device: "film_length (snd (device c f s)) = film_length s"
  by (simp add: device_def split: prod.split)

lemma film_length_updateParameters:
  "film_length (snd (snd (updateParameters drv msg s))) = film_length s"
  by (simp add: updateParameters_def getParameters_def params_copy_def Let_def device_def
           split: option.split data_value.split prod.split outcome.split)

lemma film_length_other_types:
  assumes "m_type msg \<noteq> ''start film''" and "m_type msg \<noteq> ''stop film''"
  shows "film_length (snd (snd (processMessage drv msg s))) = film_length s"
proof -
  consider "m_type msg = ''configure1''" | "m_type msg = ''film timing''"
    | "m_type msg = ''get camera functionality''" | "m_type msg = ''new parameters''"
    | "m_type msg = ''shutter clicked''" | "m_type msg = ''start camera''"
    | "m_type msg = ''stop camera''" | "m_type msg \<notin> set handled_types"
    using assms by (auto simp: handled_types_def)
  then show ?thesis
  proof cases
    case 1
    then show ?thesis by (simp add: processMessage_configure1)
  next
    case 2
    then show ?thesis
      by (simp add: processMessage_film_timing setFilmLength_def device_def
               split: option.split data_value.split prod.split)
  next
    case 3
    then show ?thesis
      by (simp add: processMessage_get_camera_functionality split: option.split)
  next
    case 4
    then show ?thesis
      by (simp add: processMessage_new_parameters film_length_updateParameters)
  next
    case 5
    then show ?thesis
      by (simp add: processMessage_shutter_clicked toggleShutter_def device_def
               split: option.split prod.split)
  next
    case 6
    then show ?thesis
      by (simp add: processMessage_start_camera startCamera_def device_def
               split: option.split prod.split)
  next
    case 7
    then show ?thesis
      by (simp add: processMessage_stop_camera stopCamera_def device_def
               split: option.split prod.split)
  next
    case 8
    then show ?thesis by (simp add: processMessage_unhandled)
  qed
qed

text \<open>
  C10: only "start film" and "stop film" can change \<open>film_length\<close>: after a message
  of any other type, handled or not, and whether the call returns or raises, the
  field holds what it held before.
\<close>

theorem film_length_frame:
  "m_type msg \<noteq> ''start film'' \<and> m_type msg \<noteq> ''stop film'' \<Longrightarrow>
   film_length (snd (snd (processMessage drv msg s))) = film_length s"
  by (simp add: film_length_other_types)

theorem film_length_frame_witness:
  "m_type (example_message ''start camera'' [(''camera'', VStr ''camera1'')]) \<noteq> ''start film'' \<and>
   m_type (example_message ''start camera'' [(''camera'', VStr ''camera1'')]) \<noteq> ''stop film'' \<and>
   film_length (snd (snd (processMessage example_driver
       (example_message ''start camera'' [(''camera'', VStr ''camera1'')])
       (example_camera\<lparr>film_length := Some 500\<rparr>)))) = Some 500"
  using film_length_frame [of "example_message ''start camera'' [(''camera'', VStr ''camera1'')]"
      example_driver "example_camera\<lparr>film_length := Some 500\<rparr>"]
  by (simp add: example_message_def)

section \<open>Film timing\<close>

text \<open>
  C9: a "film timing" message never gets a response from the controller: the responses
  of the message after the call are those before it, also when the task that sets the
  film length was started, and whether the driver's call returns or raises.
\<close>

theorem film_timing_no_response:
  assumes "m_type msg = ''film timing''"
    and "processMessage drv msg s = (out, msg', s')"
  shows "responses msg' = responses msg"
  using assms
  by (auto simp: processMessage_film_timing
           split: option.splits data_value.splits if_splits prod.splits)

theorem film_timing_no_response_witness:
  "m_type (film_timing ''camera1'') = ''film timing'' \<and>
   tasks (snd (snd (processMessage example_driver (film_timing ''camera1'')
       (example_camera\<lparr>film_length := Some 500\<rparr>)))) = [SetFilmLengthTask] \<and>
   responses (fst (snd (processMessage example_driver (film_timing ''camera1'')
       (example_camera\<lparr>film_length := Some 500\<rparr>)))) = []"
  using film_timing_no_response [of "film_timing ''camera1''" example_driver
      "example_camera\<lparr>film_length := Some 500\<rparr>"
      "fst (processMessage example_driver (film_timing ''camera1'')
          (example_camera\<lparr>film_length := Some 500\<rparr>))"
      "fst (snd (processMessage example_driver (film_timing ''camera1'')
          (example_camera\<lparr>film_length := Some 500\<rparr>)))"
      "snd (snd (processMessage example_driver (film_timing ''camera1'')
          (example_camera\<lparr>film_length := Some 500\<rparr>)))"]
  by (simp add: processMessage_film_timing getData_def setFilmLength_def device_def
        example_defs)

text \<open>
  C5, as amended: for a "film timing" message whose payload holds a functionality, the
  task that calls the driver's \<open>setFilmLength\<close> with the current
  \<open>film_length\<close> is started exactly when the time base of the functionality is the
  name of this controller and \<open>film_length\<close> is not None; otherwise the state is
  untouched: no task, no driver call. In particular, in the state reached by a
  "start film" with no fixed length from a controller whose \<open>film_length\<close> was None,
  the field is still None and the "film timing" message starts no task.
\<close>

theorem film_timing_task:
  assumes "m_type msg = ''film timing''"
    and "getData msg ''functionality'' = Some (VFunctionality f)"
    and "processMessage drv msg s = (out, msg', s')"
  shows "(getTimeBase f = self_module_name s \<and> film_length s \<noteq> None \<longrightarrow>
            tasks s' = tasks s @ [SetFilmLengthTask] \<and>
            calls s' = calls s @ [SetFilmLength (film_length s)] \<and>
            (out, camera_control s', objects s') =
              drv_setFilmLength drv (film_length s) (camera_control s, objects s)) \<and>
         (\<not> (getTimeBase f = self_module_name s \<and> film_length s \<noteq> None) \<longrightarrow> s' = s) \<and>
         (\<forall>start fs s0.
            m_type start = ''start film'' \<and>
            getData start ''film settings'' = Some (VFilmSettings fs) \<and>
            \<not> isFixedLength fs \<and> film_length s0 = None \<and>
            s = snd (snd (processMessage drv start s0)) \<longrightarrow>
            film_length s = None \<and> tasks s' = tasks s \<and> calls s' = calls s)"
  using assms
  by (auto simp: processMessage_film_timing processMessage_start_film setFilmLength_def
        device_def split: prod.splits)

theorem film_timing_task_witness:
  "m_type (film_timing ''camera1'') = ''film timing'' \<and>
   tasks (snd (snd (processMessage example_driver (film_timing ''camera1'')
       (example_camera\<lparr>film_length := Some 500\<rparr>)))) = [SetFilmLengthTask] \<and>
   calls (snd (snd (processMessage example_driver (film_timing ''camera1'')
       (example_camera\<lparr>film_length := Some 500\<rparr>)))) = [SetFilmLength (Some 500)] \<and>
   snd (snd (processMessage example_driver (film_timing ''camera2'')
       (example_camera\<lparr>film_length := Some 500\<rparr>))) = example_camera\<lparr>film_length := Some 500\<rparr> \<and>
   film_length (snd (snd (processMessage example_driver (start_film False 0) example_camera)))
     = None \<and>
   tasks (snd (snd (processMessage example_driver (film_timing ''camera1'')
       (snd (snd (processMessage example_driver (start_film False 0) example_camera))))))
     = []"
proof -
  let ?f1 = "\<lparr>camera_name = ''timing'', getTimeBase = ''camera1''\<rparr>"
  let ?f2 = "\<lparr>camera_name = ''timing'', getTimeBase = ''camera2''\<rparr>"
  let ?s = "example_camera\<lparr>film_length := Some 500\<rparr>"
  let ?r1 = "processMessage example_driver (film_timing ''camera1'') ?s"
  let ?r2 = "processMessage example_driver (film_timing ''camera2'') ?s"
  let ?open = "snd (snd (processMessage example_driver (start_film False 0) example_camera))"
  let ?r3 = "processMessage example_driver (film_timing ''camera1'') ?open"
  have t: "m_type (film_timing ''camera1'') = ''film timing''"
    by (simp add: example_defs)
  have "tasks (snd (snd ?r1)) = [SetFilmLengthTask] \<and>
        calls (snd (snd ?r1)) = [SetFilmLength (Some 500)]"
    using film_timing_task [of "film_timing ''camera1''" ?f1 example_driver ?s
        "fst ?r1" "fst (snd ?r1)" "snd (snd ?r1)"]
    by (simp add: getData_def example_defs)
  moreover have "snd (snd ?r2) = ?s"
    using film_timing_task [of "film_timing ''camera2''" ?f2 example_driver ?s
        "fst ?r2" "fst (snd ?r2)" "snd (snd ?r2)"]
    by (simp add: getData_def example_defs)
  moreover have "film_length ?open = None \<and> tasks (snd (snd ?r3)) = tasks ?open"
    using film_timing_task [of "film_timing ''camera1''" ?f1 example_driver ?open
        "fst ?r3" "fst (snd ?r3)" "snd (snd ?r3)",
        THEN conjunct2, THEN conjunct2, rule_format,
        of "start_film False 0" "\<lparr>isFixedLength = False, getFilmLength = 0\<rparr>" example_camera]
    by (simp add: getData_def example_defs)
  moreover have "tasks ?open = []"
    by (simp add: processMessage_start_film getData_def example_defs)
  ultimately show ?thesis using t by simp
qed

text \<open>
  The claim as stated, that after any "start film" with no fixed length a "film timing"
  message naming this controller starts no task, fails when an earlier "start film"
  stored a length: the field still holds 500, and the task is started with it.
\<close>

theorem film_timing_after_open_start_counterexample:
  "film_length (processMessages example_driver
       [start_film True 500, start_film False 0] example_camera) = Some 500 \<and>
   tasks (snd (snd (processMessage example_driver (film_timing ''camera1'')
       (processMessages example_driver
          [start_film True 500, start_film False 0] example_camera))))
     = [SetFilmLengthTask] \<and>
   calls (snd (snd (processMessage example_driver (film_timing ''camera1'')
       (processMessages example_driver
          [start_film True 500, start_film False 0] example_camera))))
     = [SetFilmLength (Some 500)]"
  by (simp add: processMessage_start_film processMessage_film_timing setFilmLength_def
        device_def getData_def example_defs)

section \<open>Messages addressed to one camera\<close>



section \<open>Stop film\<close>




section \<open>New parameters\<close>

lemma updateParameters_result:
  assumes "getData msg ''parameters'' = Some (VParameters P)"
    and "P < next_addr (objects s)"
    and "params_get (cells (objects s) P) (self_module_name s) = Some p"
    and "params_copy (drv_getParameters drv (camera_control s)) (objects s) = (snap, st1)"
    and "drv_newParameters drv p (camera_control s, st1) = (applied, d', st')"
  shows "updateParameters drv msg s =
     (case applied of
        Done \<Rightarrow>
          (Done,
           msg\<lparr>responses := responses msg @
             [\<lparr>resp_source = self_module_name s,
               resp_data = [(''old parameters'', VParameters snap)]\<rparr>,
              \<lparr>resp_source = self_module_name s,
               resp_data = [(''new parameters'', VParameters (drv_getParameters drv d'))]\<rparr>]\<rparr>,
           s\<lparr>camera_control := d', objects := st',
             calls := calls s @ [GetParameters, NewParameters p, GetParameters]\<rparr>)
      | Raised e \<Rightarrow>
          (Raised e,
           msg\<lparr>responses := responses msg @
             [\<lparr>resp_source = self_module_name s,
               resp_data = [(''old parameters'', VParameters snap)]\<rparr>]\<rparr>,
           s\<lparr>camera_control := d', objects := st',
             calls := calls s @ [GetParameters, NewParameters p]\<rparr>))"
proof -
  have st1: "st1 = (objects s)\<lparr>cells := (cells (objects s))
                 (next_addr (objects s) :=
                    cells (objects s) (drv_getParameters drv (camera_control s))),
               next_addr := Suc (next_addr (objects s))\<rparr>"
    using assms(4) by (auto simp: params_copy_def)
  have P: "cells st1 P = cells (objects s) P"
    using assms(2) by (simp add: st1)
  show ?thesis
    using assms(1,3,5) P assms(4)
    by (simp add: updateParameters_def getParameters_def getData_def addResponse_def
          device_def Let_def split: outcome.split)
qed

lemma new_parameters_result:
  assumes "m_type msg = ''new parameters''"
    and "getData msg ''parameters'' = Some (VParameters P)"
    and "P < next_addr (objects s)"
    and "params_get (cells (objects s) P) (self_module_name s) = Some p"
    and "params_copy (drv_getParameters drv (camera_control s)) (objects s) = (snap, st1)"
    and "drv_newParameters drv p (camera_control s, st1) = (applied, d', st')"
  shows "processMessage drv msg s =
     (case applied of
        Done \<Rightarrow>
          (Done,
           msg\<lparr>responses := responses msg @
             [\<lparr>resp_source = self_module_name s,
               resp_data = [(''old parameters'', VParameters snap)]\<rparr>,
              \<lparr>resp_source = self_module_name s,
               resp_data = [(''new parameters'', VParameters (drv_getParameters drv d'))]\<rparr>]\<rparr>,
           s\<lparr>camera_control := d', objects := st',
             calls := calls s @ [GetParameters, NewParameters p, GetParameters],
             tasks := tasks s @ [UpdateParametersTask]\<rparr>)
      | Raised e \<Rightarrow>
          (Raised e,
           msg\<lparr>responses := responses msg @
             [\<lparr>resp_source = self_module_name s,
               resp_data = [(''old parameters'', VParameters snap)]\<rparr>]\<rparr>,
           s\<lparr>camera_control := d', objects := st',
             calls := calls s @ [GetParameters, NewParameters p],
             tasks := tasks s @ [UpdateParametersTask]\<rparr>))"
proof -
  let ?s0 = "s\<lparr>tasks := tasks s @ [UpdateParametersTask]\<rparr>"
  have "getData msg ''parameters'' = Some (VParameters P)"
    and "P < next_addr (objects ?s0)"
    and "params_get (cells (objects ?s0) P) (self_module_name ?s0) = Some p"
    and "params_copy (drv_getParameters drv (camera_control ?s0)) (objects ?s0) = (snap, st1)"
    and "drv_newParameters drv p (camera_control ?s0, st1) = (applied, d', st')"
    using assms(2-6) by simp_all
  note u = updateParameters_result [OF this]
  show ?thesis
    using assms(1) by (simp add: processMessage_new_parameters u split: outcome.split)
qed

lemma fold_mutate_other:
  "a \<noteq> b \<Longrightarrow> cells (fold (mutate a) vs st) b = cells st b"
  by (induction vs arbitrary: st) (simp_all add: mutate_def)




text \<open>
  C7: the "old parameters" response holds a copy made before the apply. The copy is a
  new object, different from the driver's parameter object before and after the apply.
  For a driver that, when applying, writes no existing object but its own parameters and
  whose parameter object afterwards is the old one or one made during the apply, the
  content of the copy after the apply, whether the apply returned or raised, is the
  content that the driver's parameters had before it, and it stays so under every
  sequence of later mutations of the driver's parameter object.
\<close>

theorem old_parameters_independent:
  assumes "m_type msg = ''new parameters''"
    and "getData msg ''parameters'' = Some (VParameters P)"
    and "P < next_addr (objects s)"
    and "params_get (cells (objects s) P) (self_module_name s) = Some p"
    and "drv_getParameters drv (camera_control s) < next_addr (objects s)"
    and "params_copy (drv_getParameters drv (camera_control s)) (objects s) = (snap, st1)"
    and "drv_newParameters drv p (camera_control s, st1) = (applied, d', st')"
    and "writes_only (drv_getParameters drv (camera_control s)) st1 st'"
    and "drv_getParameters drv d' = drv_getParameters drv (camera_control s) \<or>
         next_addr st1 \<le> drv_getParameters drv d'"
    and "processMessage drv msg s = (out, msg', s')"
  shows "responses msg' ! length (responses msg) =
           \<lparr>resp_source = self_module_name s,
            resp_data = [(''old parameters'', VParameters snap)]\<rparr> \<and>
         camera_control s' = d' \<and> objects s' = st' \<and>
         snap \<noteq> drv_getParameters drv (camera_control s) \<and>
         snap \<noteq> drv_getParameters drv (camera_control s') \<and>
         cells (objects s') snap = cells (objects s) (drv_getParameters drv (camera_control s)) \<and>
         (\<forall>vs. cells (fold (mutate (drv_getParameters drv (camera_control s'))) vs (objects s'))
                  snap
                = cells (objects s) (drv_getParameters drv (camera_control s)))"
proof -
  let ?live = "drv_getParameters drv (camera_control s)"
  let ?old = "\<lparr>resp_source = self_module_name s,
               resp_data = [(''old parameters'', VParameters snap)]\<rparr>"
  have snap: "snap = next_addr (objects s)"
    and n1: "next_addr st1 = Suc (next_addr (objects s))"
    and c1: "cells st1 snap = cells (objects s) ?live"
    using assms(6) by (auto simp: params_copy_def)
  have r: "responses msg' ! length (responses msg) = ?old"
    and d: "camera_control s' = d'" and o: "objects s' = st'"
    using new_parameters_result [OF assms(1-4,6,7)] assms(10)
    by (auto simp: nth_append split: outcome.splits)
  have neq: "snap \<noteq> ?live" using assms(5) snap by simp
  have neq': "snap \<noteq> drv_getParameters drv d'" using assms(9) neq snap n1 by auto
  have kept: "cells st' snap = cells st1 snap"
    using assms(8) neq snap n1 by (simp add: writes_only_def)
  have later: "cells (fold (mutate (drv_getParameters drv d')) vs st') snap = cells st' snap"
    for vs
    using neq' by (intro fold_mutate_other) simp
  show ?thesis
    using r d o neq neq' kept c1 later by simp
qed

theorem old_parameters_independent_witness:
  "responses (fst (snd (processMessage example_driver
       (example_message ''new parameters'' [(''parameters'', VParameters 1)]) example_camera)))
     ! 0 = \<lparr>resp_source = ''camera1'', resp_data = [(''old parameters'', VParameters 2)]\<rparr> \<and>
   cells (objects (snd (snd (processMessage example_driver
       (example_message ''new parameters'' [(''parameters'', VParameters 1)]) example_camera))))
     0 = PSection [(''exposure'', PInt 20)] \<and>
   cells (objects (snd (snd (processMessage example_driver
       (example_message ''new parameters'' [(''parameters'', VParameters 1)]) example_camera))))
     2 = PSection [(''exposure'', PInt 10)] \<and>
   cells (fold (mutate 0) [PSection [], PInt 7]
       (objects (snd (snd (processMessage example_driver
          (example_message ''new parameters'' [(''parameters'', VParameters 1)])
          example_camera)))))
     2 = PSection [(''exposure'', PInt 10)]"
proof -
  let ?msg = "example_message ''new parameters'' [(''parameters'', VParameters 1)]"
  let ?p = "PSection [(''exposure'', PInt 20)]"
  let ?live = "drv_getParameters example_driver (camera_control example_camera)"
  let ?st1 = "snd (params_copy 0 example_store)"
  let ?st' = "?st1\<lparr>cells := (cells ?st1)(0 := ?p)\<rparr>"
  let ?r = "processMessage example_driver ?msg example_camera"
  have h1: "m_type ?msg = ''new parameters''"
    by (simp add: example_defs)
  have h2: "getData ?msg ''parameters'' = Some (VParameters 1)"
    by (simp add: getData_def example_defs)
  have h3: "1 < next_addr (objects example_camera)"
    by (simp add: example_defs)
  have h4: "params_get (cells (objects example_camera) 1) (self_module_name example_camera)
              = Some ?p"
    by (simp add: params_get_def example_defs)
  have h5: "?live < next_addr (objects example_camera)"
    by (simp add: example_defs)
  have h6: "params_copy ?live (objects example_camera) = (2, ?st1)"
    by (simp add: params_copy_def example_defs)
  have h7: "drv_newParameters example_driver ?p (camera_control example_camera, ?st1)
              = (Done, 0, ?st')"
    by (simp add: example_defs)
  have h8: "writes_only ?live ?st1 ?st'"
    by (simp add: writes_only_def example_defs)
  have h9: "drv_getParameters example_driver 0 = ?live \<or>
            next_addr ?st1 \<le> drv_getParameters example_driver 0"
    by (simp add: example_defs)
  have h10: "?r = (fst ?r, fst (snd ?r), snd (snd ?r))"
    by simp
  note T = old_parameters_independent [OF h1 h2 h3 h4 h5 h6 h7 h8 h9 h10]
  note T1 = T [THEN conjunct1]
  note T2 = T [THEN conjunct2, THEN conjunct1]
  note T3 = T [THEN conjunct2, THEN conjunct2, THEN conjunct1]
  note T6 = T [THEN conjunct2, THEN conjunct2, THEN conjunct2, THEN conjunct2,
      THEN conjunct2, THEN conjunct1]
  note T7 = T [THEN conjunct2, THEN conjunct2, THEN conjunct2, THEN conjunct2,
      THEN conjunct2, THEN conjunct2, rule_format, of "[PSection [], PInt 7]"]
  have live: "?live = 0"
    and old: "cells (objects example_camera) 0 = PSection [(''exposure'', PInt 10)]"
    and own: "drv_getParameters example_driver 0 = 0"
    by (simp_all add: example_defs)
  have a: "responses (fst (snd ?r)) ! 0 =
             \<lparr>resp_source = ''camera1'', resp_data = [(''old parameters'', VParameters 2)]\<rparr>"
    using T1 by (simp add: example_message_def example_camera_def init_def)
  have b: "cells (objects (snd (snd ?r))) 0 = ?p"
    unfolding T3 by simp
  have d: "cells (objects (snd (snd ?r))) 2 = PSection [(''exposure'', PInt 10)]"
    using T6 unfolding live old .
  have e: "cells (fold (mutate 0) [PSection [], PInt 7] (objects (snd (snd ?r)))) 2
             = PSection [(''exposure'', PInt 10)]"
    using T7 unfolding T2 own live old .
  show ?thesis using a b d e by simp
qed

section \<open>The film length over a run\<close>

lemma processMessages_append:
  "processMessages drv (xs @ ys) s = processMessages drv ys (processMessages drv xs s)"
  by (induction xs arbitrary: s) simp_all

lemma film_length_step:
  "film_length (snd (snd (processMessage drv msg s))) =
     (if isType msg ''stop film'' then None
      else case declared_length msg of Some n \<Rightarrow> Some n | None \<Rightarrow> film_length s)"
proof -
  consider "m_type msg = ''stop film''" | "m_type msg = ''start film''"
    | "m_type msg \<noteq> ''start film''" "m_type msg \<noteq> ''stop film''"
    by blast
  then show ?thesis
  proof cases
    case 1
    then show ?thesis
      by (simp add: processMessage_stop_film isType_def split: prod.split outcome.split)
  next
    case 2
    then show ?thesis
      by (simp add: processMessage_start_film isType_def declared_length_def
               split: option.split data_value.split)
  next
    case 3
    then show ?thesis
      by (simp add: film_length_other_types isType_def declared_length_def)
  qed
qed

lemma film_length_snoc:
  "film_length (processMessages drv (msgs @ [msg]) s) =
     (if isType msg ''stop film'' then None
      else case declared_length msg of
             Some n \<Rightarrow> Some n
           | None \<Rightarrow> film_length (processMessages drv msgs s))"
  by (simp add: processMessages_append film_length_step)

lemma declared_length_not_stop:
  "declared_length msg = Some n \<Longrightarrow> \<not> isType msg ''stop film''"
  by (auto simp: declared_length_def isType_def split: if_splits)

lemma film_length_kept:
  assumes "film_length s \<noteq> None" and "\<forall>x\<in>set post. \<not> isType x ''stop film''"
  shows "film_length (processMessages drv post s) \<noteq> None"
  using assms(2)
proof (induction post rule: rev_induct)
  case Nil
  then show ?case using assms(1) by simp
next
  case (snoc x xs)
  then show ?case by (simp add: film_length_snoc split: option.split)
qed

lemma film_length_latest:
  assumes "film_length s = Some n"
    and "\<forall>x\<in>set post. \<not> isType x ''stop film'' \<and> declared_length x = None"
  shows "film_length (processMessages drv post s) = Some n"
  using assms(2)
proof (induction post rule: rev_induct)
  case Nil
  then show ?case using assms(1) by simp
next
  case (snoc x xs)
  then show ?case by (simp add: film_length_snoc)
qed

lemma film_length_origin:
  assumes "film_length s = None"
    and "film_length (processMessages drv msgs s) \<noteq> None"
  shows "\<exists>pre m n post. msgs = pre @ m # post \<and> declared_length m = Some n \<and>
           (\<forall>x\<in>set post. \<not> isType x ''stop film'')"
  using assms(2)
proof (induction msgs rule: rev_induct)
  case Nil
  then show ?case using assms(1) by simp
next
  case (snoc x xs)
  show ?case
  proof (cases "declared_length x")
    case (Some n)
    then have "xs @ [x] = xs @ x # [] \<and> declared_length x = Some n \<and>
               (\<forall>y\<in>set []. \<not> isType y ''stop film'')"
      by simp
    then show ?thesis by blast
  next
    case None
    with snoc.prems have ns: "\<not> isType x ''stop film''"
      and "film_length (processMessages drv xs s) \<noteq> None"
      by (auto simp: film_length_snoc split: if_splits)
    with snoc.IH obtain pre m n post where
      d: "xs = pre @ m # post" "declared_length m = Some n"
         "\<forall>y\<in>set post. \<not> isType y ''stop film''"
      by blast
    then have "xs @ [x] = pre @ m # (post @ [x]) \<and> declared_length m = Some n \<and>
               (\<forall>y\<in>set (post @ [x]). \<not> isType y ''stop film'')"
      using ns by simp
    then show ?thesis by blast
  qed
qed

text \<open>
  C1: from a state in which \<open>film_length\<close> is None, and for every sequence of
  messages: \<open>film_length\<close> is not None after the sequence exactly when the sequence
  holds a "start film" that declares a fixed length with no "stop film" after it; and
  with such a "start film" \<open>m\<close>, declaring \<open>n\<close>, the field is \<open>n\<close>. Every
  fixed-length "start film" stores its own length, so where several of them came since
  the last "stop film", \<open>m\<close> is the latest one. Every prefix of a run is a sequence
  too, so this holds at every point of a run.
\<close>

theorem film_length_between_start_and_stop:
  assumes "film_length s = None"
  shows "(film_length (processMessages drv msgs s) \<noteq> None \<longleftrightarrow>
            (\<exists>pre m n post. msgs = pre @ m # post \<and> declared_length m = Some n \<and>
               (\<forall>x\<in>set post. \<not> isType x ''stop film''))) \<and>
         (\<forall>pre m n post.
            msgs = pre @ m # post \<and> declared_length m = Some n \<and>
            (\<forall>x\<in>set post. \<not> isType x ''stop film'' \<and> declared_length x = None) \<longrightarrow>
            film_length (processMessages drv msgs s) = Some n)"
proof (intro conjI iffI allI impI)
  assume "film_length (processMessages drv msgs s) \<noteq> None"
  with assms show "\<exists>pre m n post. msgs = pre @ m # post \<and> declared_length m = Some n \<and>
      (\<forall>x\<in>set post. \<not> isType x ''stop film'')"
    by (rule film_length_origin)
next
  assume "\<exists>pre m n post. msgs = pre @ m # post \<and> declared_length m = Some n \<and>
      (\<forall>x\<in>set post. \<not> isType x ''stop film'')"
  then obtain pre m n post where
    d: "msgs = pre @ m # post" "declared_length m = Some n"
       "\<forall>x\<in>set post. \<not> isType x ''stop film''"
    by blast
  have "film_length (processMessages drv (pre @ [m]) s) \<noteq> None"
    using d(2) by (simp add: film_length_snoc declared_length_not_stop)
  then have "film_length (processMessages drv post (processMessages drv (pre @ [m]) s)) \<noteq> None"
    using d(3) by (rule film_length_kept)
  then show "film_length (processMessages drv msgs s) \<noteq> None"
    using d(1) by (simp add: processMessages_append)
next
  fix pre m n post
  assume a: "msgs = pre @ m # post \<and> declared_length m = Some n \<and>
    (\<forall>x\<in>set post. \<not> isType x ''stop film'' \<and> declared_length x = None)"
  have "film_length (processMessages drv (pre @ [m]) s) = Some n"
    using a by (simp add: film_length_snoc declared_length_not_stop)
  moreover have "\<forall>x\<in>set post. \<not> isType x ''stop film'' \<and> declared_length x = None"
    using a by simp
  ultimately
  have "film_length (processMessages drv post (processMessages drv (pre @ [m]) s)) = Some n"
    by (rule film_length_latest)
  then show "film_length (processMessages drv msgs s) = Some n"
    using a by (simp add: processMessages_append)
qed

theorem film_length_between_start_and_stop_witness:
  "film_length example_camera = None \<and>
   declared_length (start_film True 500) = Some 500 \<and>
   film_length (processMessages example_driver
       [start_film True 500, film_timing ''camera1''] example_camera) = Some 500 \<and>
   film_length (processMessages example_driver
       [start_film True 500, film_timing ''camera1'', example_message ''stop film'' []]
       example_camera) = None"
proof -
  let ?a = "start_film True 500"
  let ?b = "film_timing ''camera1''"
  let ?c = "example_message ''stop film'' []"
  have h: "film_length example_camera = None"
    by (simp add: example_defs)
  have da: "declared_length ?a = Some 500" and db: "declared_length ?b = None"
    and dc: "declared_length ?c = None"
    and nb: "\<not> isType ?b ''stop film''" and sc: "isType ?c ''stop film''"
    by (simp_all add: declared_length_def isType_def getData_def example_defs)
  have "[?a, ?b] = [] @ ?a # [?b] \<and> declared_length ?a = Some 500 \<and>
        (\<forall>x\<in>set [?b]. \<not> isType x ''stop film'' \<and> declared_length x = None)"
    using da db nb by simp
  then have between: "film_length (processMessages example_driver [?a, ?b] example_camera)
      = Some 500"
    using film_length_between_start_and_stop [OF h, of example_driver "[?a, ?b]",
        THEN conjunct2, rule_format, of "[]" ?a "[?b]" 500]
    by blast
  have "\<not> (\<exists>pre m n post. [?a, ?b, ?c] = pre @ m # post \<and> declared_length m = Some n \<and>
            (\<forall>x\<in>set post. \<not> isType x ''stop film''))"
    using da db dc sc by (auto simp: append_eq_Cons_conv Cons_eq_append_conv)
  then have after: "film_length (processMessages example_driver [?a, ?b, ?c] example_camera)
      = None"
    using film_length_between_start_and_stop [OF h, of example_driver "[?a, ?b, ?c]",
        THEN conjunct1]
    by blast
  show ?thesis using h da between after by simp
qed

text \<open>
  A second fixed-length "start film" before the "stop film" replaces the length stored
  by the first.
\<close>

lemma film_length_second_start:
  "film_length (processMessages example_driver
       [start_film True 500, start_film True 300] example_camera) = Some 300"
  by (simp add: processMessage_start_film getData_def example_defs)

section \<open>Start film without a fixed length\<close>

text \<open>
  C2, as amended: a "start film" whose film settings do not declare a fixed length
  leaves \<open>film_length\<close> as it was. It is None afterwards when it was None before (as
  after \<open>__init__\<close> or a "stop film"); a length stored by an earlier "start film"
  stays.
\<close>

theorem start_film_open_keeps_film_length:
  assumes "m_type msg = ''start film''"
    and "getData msg ''film settings'' = Some (VFilmSettings fs)"
    and "\<not> isFixedLength fs"
  shows "film_length (snd (snd (processMessage drv msg s))) = film_length s"
  using assms by (simp add: processMessage_start_film)

theorem start_film_open_keeps_film_length_witness:
  "m_type (start_film False 0) = ''start film'' \<and>
   getData (start_film False 0) ''film settings''
     = Some (VFilmSettings \<lparr>isFixedLength = False, getFilmLength = 0\<rparr>) \<and>
   film_length (snd (snd (processMessage example_driver (start_film False 0) example_camera)))
     = None"
  using start_film_open_keeps_film_length [of "start_film False 0"
      "\<lparr>isFixedLength = False, getFilmLength = 0\<rparr>" example_driver example_camera]
  by (simp add: getData_def example_defs)

text \<open>
  The claim as stated, that the field is None after such a message whatever it held
  before, fails in the state reached by a fixed-length "start film": the length 500 is
  still there after a "start film" with no fixed length.
\<close>

theorem start_film_open_counterexample:
  "film_length (snd (snd (processMessage example_driver (start_film False 0)
       (processMessages example_driver [start_film True 500] example_camera)))) = Some 500"
  by (simp add: processMessage_start_film getData_def example_defs)

end
